theory Spec2Isabelle
  imports Main "HOL-Library.Word" "HOL-Library.Mapping"
begin

section \<open>Strings\<close>

text \<open>
  A JavaScript string is a sequence of 16-bit code units.  Literals of the source that
  are plain ASCII are written with \<open>lit\<close>; the two relation signs of the range messages
  are the code units U+2265 and U+2264.
\<close>

type_synonym jsstring = "16 word list"

definition lit :: "string \<Rightarrow> jsstring" where
  "lit s = map (\<lambda>c. of_nat (of_char c)) s"

text \<open>
  \<open>String.prototype.trim\<close> removes white space and line terminators from both ends.
  The set is the one of ECMAScript: TAB, LF, VT, FF, CR, SP, NBSP, the space separators
  of Unicode, LS, PS and the byte order mark.
\<close>

definition isWhiteSpace :: "16 word \<Rightarrow> bool" where
  "isWhiteSpace c \<longleftrightarrow>
     c = 0x9 \<or> c = 0xA \<or> c = 0xB \<or> c = 0xC \<or> c = 0xD \<or> c = 0x20 \<or> c = 0xA0 \<or>
     c = 0x1680 \<or> (0x2000 \<le> c \<and> c \<le> 0x200A) \<or> c = 0x2028 \<or> c = 0x2029 \<or>
     c = 0x202F \<or> c = 0x205F \<or> c = 0x3000 \<or> c = 0xFEFF"

definition trim :: "jsstring \<Rightarrow> jsstring" where
  "trim s = rev (dropWhile isWhiteSpace (rev (dropWhile isWhiteSpace s)))"

section \<open>Schema model (types.ts)\<close>

datatype FieldType = Text | Number | Date | Select

datatype FormLayout = SingleColumn | TwoColumn

text \<open>
  An optional property is an \<open>option\<close>: \<open>None\<close> is \<open>undefined\<close>.  The type \<open>'n\<close> is the
  host's number type.  The properties \<open>id\<close>, \<open>name\<close>, \<open>type\<close>, \<open>min\<close> and \<open>max\<close> of a field
  are \<open>field_id\<close>, \<open>field_name\<close>, \<open>field_type\<close>, \<open>field_min\<close> and \<open>field_max\<close>; the
  properties \<open>id\<close>, \<open>name\<close> and \<open>fields\<close> of a schema are \<open>schema_id\<close>, \<open>schema_name\<close> and
  \<open>schema_fields\<close>.
\<close>

record 'n FieldSchema =
  field_id :: jsstring
  field_name :: jsstring
  label :: jsstring
  field_type :: FieldType
  required :: "bool option"
  placeholder :: "jsstring option"
  field_min :: "'n option"
  field_max :: "'n option"
  pattern :: "jsstring option"
  options :: "jsstring list option"

record 'n FormSchema =
  schema_id :: jsstring
  schema_name :: jsstring
  description :: "jsstring option"
  layout :: FormLayout
  schema_fields :: "'n FieldSchema list"
  createdAt :: jsstring
  updatedAt :: jsstring

text \<open>
  Objects used as dictionaries (\<open>Record<string, T>\<close>) are finite mappings from property
  name to value: the entries are the object's own properties, and the order of the keys
  is outside the model.  The keys of \<open>values\<close> and \<open>errors\<close> are field ids, which
  \<open>generateId\<close> makes of base-36 digits.  The keys of the submitted record are field
  names, which are free text of the editor, so an assignment to the record goes through
  \<open>assignProperty\<close> below.
\<close>

type_synonym FormValues = "(jsstring, jsstring) mapping"

type_synonym ValidationErrorMap = "(jsstring, jsstring) mapping"

datatype 'n jsvalue = JString jsstring | JNumber 'n

type_synonym 'n DataRecord = "(jsstring, 'n jsvalue) mapping"

text \<open>
  \<open>obj[key] = v\<close> on an ordinary object \<open>{}\<close>, for a value that is a string or a number.
  The key \<open>__proto__\<close> is an accessor inherited from \<open>Object.prototype\<close>; its setter
  ignores a value that is neither an object nor null, so nothing is stored.  Every other
  key becomes an own property, also when \<open>Object.prototype\<close> has a property of that name.
\<close>

definition assignProperty :: "jsstring \<Rightarrow> 'v \<Rightarrow> (jsstring, 'v) mapping \<Rightarrow> (jsstring, 'v) mapping" where
  "assignProperty key v obj =
     (if key = lit ''__proto__'' then obj else Mapping.update key v obj)"

section \<open>The host\<close>

text \<open>
  The form engine calls into the JavaScript host for numbers and regular expressions:
  \<open>Number(s)\<close>, \<open>Number.isNaN(x)\<close>, the comparison \<open>a < b\<close> on numbers, the conversion of a
  number to a string inside a template literal, \<open>new RegExp(p)\<close> (\<open>None\<close> when it throws
  a SyntaxError) and \<open>regex.test(s)\<close>.  The model takes them as a parameter; \<open>a > b\<close> on
  numbers is \<open>b < a\<close>.
\<close>

record ('n, 'r) host =
  js_Number :: "jsstring \<Rightarrow> 'n"
  js_isNaN :: "'n \<Rightarrow> bool"
  js_lt :: "'n \<Rightarrow> 'n \<Rightarrow> bool"
  js_toString :: "'n \<Rightarrow> jsstring"
  js_RegExp :: "jsstring \<Rightarrow> 'r option"
  js_test :: "'r \<Rightarrow> jsstring \<Rightarrow> bool"

definition js_gt :: "('n, 'r) host \<Rightarrow> 'n \<Rightarrow> 'n \<Rightarrow> bool" where
  "js_gt rt a b = js_lt rt b a"

section \<open>Form engine (DynamicForm.tsx)\<close>

text \<open>The two state variables of the component, \<open>values\<close> and \<open>errors\<close>.\<close>

record form_state =
  st_values :: FormValues
  st_errors :: ValidationErrorMap

text \<open>\<open>values[field.id] ?? ''\<close>\<close>

definition rawValueOf :: "FormValues \<Rightarrow> 'n FieldSchema \<Rightarrow> jsstring" where
  "rawValueOf vals field =
     (case Mapping.lookup vals (field_id field) of None \<Rightarrow> [] | Some v \<Rightarrow> v)"

definition msgRequired :: jsstring where
  "msgRequired = lit ''This field is required''"

definition msgNotANumber :: jsstring where
  "msgNotANumber = lit ''Must be a valid number''"

definition msgMin :: "('n, 'r) host \<Rightarrow> 'n \<Rightarrow> jsstring" where
  "msgMin rt m = lit ''Must be '' @ [0x2265] @ lit '' '' @ js_toString rt m"

definition msgMax :: "('n, 'r) host \<Rightarrow> 'n \<Rightarrow> jsstring" where
  "msgMax rt m = lit ''Must be '' @ [0x2264] @ lit '' '' @ js_toString rt m"

definition msgPattern :: jsstring where
  "msgPattern = lit ''Value does not match required format''"

text \<open>
  The three checks of the \<open>number\<close> block.  Each one assigns its message and continues
  with the next field; the result is that message, or \<open>None\<close> when the block is left
  without an assignment.  \<open>typeof field.min === 'number'\<close> holds when \<open>min\<close> is present.
\<close>

definition minCheck :: "('n, 'r) host \<Rightarrow> 'n FieldSchema \<Rightarrow> 'n \<Rightarrow> jsstring option" where
  "minCheck rt field num =
     (case field_min field of
        None \<Rightarrow> None
      | Some m \<Rightarrow> if js_lt rt num m then Some (msgMin rt m) else None)"

definition maxCheck :: "('n, 'r) host \<Rightarrow> 'n FieldSchema \<Rightarrow> 'n \<Rightarrow> jsstring option" where
  "maxCheck rt field num =
     (case field_max field of
        None \<Rightarrow> None
      | Some m \<Rightarrow> if js_gt rt num m then Some (msgMax rt m) else None)"

definition numberCheck :: "('n, 'r) host \<Rightarrow> 'n FieldSchema \<Rightarrow> jsstring \<Rightarrow> jsstring option" where
  "numberCheck rt field trimmed =
     (let num = js_Number rt trimmed
      in if js_isNaN rt num then Some msgNotANumber
         else (case minCheck rt field num of
                 Some msg \<Rightarrow> Some msg
               | None \<Rightarrow> maxCheck rt field num))"

text \<open>
  The \<open>text\<close> block.  \<open>field.pattern\<close> is truthy when it is a non-empty string; a
  SyntaxError of \<open>new RegExp\<close> is caught and nothing is assigned.
\<close>

definition patternCheck ::
  "('n, 'r) host \<Rightarrow> 'n FieldSchema \<Rightarrow> jsstring \<Rightarrow> ValidationErrorMap \<Rightarrow> ValidationErrorMap"
where
  "patternCheck rt field trimmed newErrors =
     (if field_type field = Text then
        (case pattern field of
           None \<Rightarrow> newErrors
         | Some p \<Rightarrow>
             if p \<noteq> [] then
               (case js_RegExp rt p of
                  None \<Rightarrow> newErrors
                | Some regex \<Rightarrow>
                    if \<not> js_test rt regex trimmed
                    then Mapping.update (field_id field) msgPattern newErrors
                    else newErrors)
             else newErrors)
      else newErrors)"

text \<open>
  The body of the loop of \<open>validate\<close>, for one field: it returns \<open>newErrors\<close>, updated or
  not.  Every \<open>continue\<close> of the source is a branch that returns.
\<close>

definition validateField ::
  "('n, 'r) host \<Rightarrow> FormValues \<Rightarrow> ValidationErrorMap \<Rightarrow> 'n FieldSchema \<Rightarrow> ValidationErrorMap"
where
  "validateField rt vals newErrors field =
     (let rawValue = rawValueOf vals field;
          trimmed = trim rawValue
      in
        if required field = Some True \<and> trimmed = [] then
          Mapping.update (field_id field) msgRequired newErrors
        else if trimmed = [] then newErrors
        else
          (case (if field_type field = Number then numberCheck rt field trimmed else None) of
             Some msg \<Rightarrow> Mapping.update (field_id field) msg newErrors
           | None \<Rightarrow> patternCheck rt field trimmed newErrors))"

text \<open>
  \<open>validate\<close> runs the body over the fields in order, starting from the empty object,
  stores the result in the component's state and returns whether it has no key.
\<close>

definition validate ::
  "('n, 'r) host \<Rightarrow> 'n FormSchema \<Rightarrow> form_state \<Rightarrow> bool \<times> form_state"
where
  "validate rt schema st =
     (let newErrors = foldl (validateField rt (st_values st)) Mapping.empty (schema_fields schema)
      in (Mapping.is_empty newErrors, st\<lparr>st_errors := newErrors\<rparr>))"

text \<open>
  The body of the loop of \<open>handleSubmit\<close>: the value assigned under the field's name is
  \<open>Number(raw)\<close> for a number field whose trimmed input is not empty, and \<open>raw\<close> itself
  otherwise.  \<open>data\<close> is an ordinary object and the value a number or a string.
\<close>

definition coerceField ::
  "('n, 'r) host \<Rightarrow> FormValues \<Rightarrow> 'n DataRecord \<Rightarrow> 'n FieldSchema \<Rightarrow> 'n DataRecord"
where
  "coerceField rt vals data field =
     (let raw = rawValueOf vals field;
          parsed = (if field_type field = Number \<and> trim raw \<noteq> []
                    then JNumber (js_Number rt raw) else JString raw)
      in assignProperty (field_name field) parsed data)"

text \<open>The \<open>forEach\<close> of \<open>handleSubmit\<close> over the fields, starting from the empty record.\<close>

definition coerceFields ::
  "('n, 'r) host \<Rightarrow> FormValues \<Rightarrow> 'n FieldSchema list \<Rightarrow> 'n DataRecord"
where
  "coerceFields rt vals fs = foldl (coerceField rt vals) Mapping.empty fs"

definition resetValues :: "'n FieldSchema list \<Rightarrow> FormValues" where
  "resetValues fs = foldl (\<lambda>reset f. Mapping.update (field_id f) [] reset) Mapping.empty fs"

text \<open>
  \<open>handleSubmit\<close> returns the record handed to \<open>onSubmit\<close>, or \<open>None\<close> when validation
  fails and nothing is submitted, together with the new state of the component.
\<close>

definition handleSubmit ::
  "('n, 'r) host \<Rightarrow> 'n FormSchema \<Rightarrow> form_state \<Rightarrow> 'n DataRecord option \<times> form_state"
where
  "handleSubmit rt schema st =
     (case validate rt schema st of
        (ok, st') \<Rightarrow>
          if \<not> ok then (None, st')
          else
            (let data = coerceFields rt (st_values st) (schema_fields schema)
             in (Some data,
                 st'\<lparr>st_values := resetValues (schema_fields schema),
                     st_errors := Mapping.empty\<rparr>)))"

section \<open>Schema editor (SchemaEditor.tsx)\<close>

text \<open>
  A \<open>Partial<T>\<close> is a record of options: \<open>None\<close> when the patch does not have the key.
  A key of an optional property can be present with the value \<open>undefined\<close>, which is
  \<open>Some None\<close>.  Object spread \<open>{...f, ...patch}\<close> takes every key of the patch.
\<close>

record 'n FieldPatch =
  p_id :: "jsstring option"
  p_name :: "jsstring option"
  p_label :: "jsstring option"
  p_type :: "FieldType option"
  p_required :: "bool option option"
  p_placeholder :: "jsstring option option"
  p_min :: "'n option option"
  p_max :: "'n option option"
  p_pattern :: "jsstring option option"
  p_options :: "jsstring list option option"

record 'n SchemaPatch =
  sp_id :: "jsstring option"
  sp_name :: "jsstring option"
  sp_description :: "jsstring option option"
  sp_layout :: "FormLayout option"
  sp_fields :: "'n FieldSchema list option"
  sp_createdAt :: "jsstring option"
  sp_updatedAt :: "jsstring option"

definition spread :: "'a \<Rightarrow> 'a option \<Rightarrow> 'a" where
  "spread old new = (case new of None \<Rightarrow> old | Some v \<Rightarrow> v)"

definition emptyFieldPatch :: "'n FieldPatch" where
  "emptyFieldPatch =
     \<lparr>p_id = None, p_name = None, p_label = None, p_type = None, p_required = None,
      p_placeholder = None, p_min = None, p_max = None, p_pattern = None, p_options = None\<rparr>"

definition emptySchemaPatch :: "'n SchemaPatch" where
  "emptySchemaPatch =
     \<lparr>sp_id = None, sp_name = None, sp_description = None, sp_layout = None,
      sp_fields = None, sp_createdAt = None, sp_updatedAt = None\<rparr>"

text \<open>\<open>{ ...f, ...patch }\<close>\<close>

definition applyFieldPatch :: "'n FieldSchema \<Rightarrow> 'n FieldPatch \<Rightarrow> 'n FieldSchema" where
  "applyFieldPatch f patch =
     \<lparr>field_id = spread (field_id f) (p_id patch),
      field_name = spread (field_name f) (p_name patch),
      label = spread (label f) (p_label patch),
      field_type = spread (field_type f) (p_type patch),
      required = spread (required f) (p_required patch),
      placeholder = spread (placeholder f) (p_placeholder patch),
      field_min = spread (field_min f) (p_min patch),
      field_max = spread (field_max f) (p_max patch),
      pattern = spread (pattern f) (p_pattern patch),
      options = spread (options f) (p_options patch)\<rparr>"

text \<open>
  \<open>updateSchema\<close> hands \<open>{ ...schema, ...patch, updatedAt: new Date().toISOString() }\<close> to
  \<open>onChange\<close>.  The clock's reading is the parameter \<open>now\<close>; the result is the schema
  handed over.
\<close>

definition updateSchema :: "jsstring \<Rightarrow> 'n FormSchema \<Rightarrow> 'n SchemaPatch \<Rightarrow> 'n FormSchema" where
  "updateSchema now schema patch =
     \<lparr>schema_id = spread (schema_id schema) (sp_id patch),
      schema_name = spread (schema_name schema) (sp_name patch),
      description = spread (description schema) (sp_description patch),
      layout = spread (layout schema) (sp_layout patch),
      schema_fields = spread (schema_fields schema) (sp_fields patch),
      createdAt = spread (createdAt schema) (sp_createdAt patch),
      updatedAt = now\<rparr>"

definition updateField ::
  "jsstring \<Rightarrow> 'n FormSchema \<Rightarrow> jsstring \<Rightarrow> 'n FieldPatch \<Rightarrow> 'n FormSchema"
where
  "updateField now schema fieldId patch =
     (let updatedFields =
            map (\<lambda>f. if field_id f = fieldId then applyFieldPatch f patch else f)
              (schema_fields schema)
      in updateSchema now schema (emptySchemaPatch\<lparr>sp_fields := Some updatedFields\<rparr>))"

text \<open>The decimal digits of a natural number, as a template literal prints an index.\<close>

fun showNat :: "nat \<Rightarrow> jsstring" where
  "showNat n =
     (if n < 10 then [of_nat (48 + n)]
      else showNat (n div 10) @ [of_nat (48 + n mod 10)])"

text \<open>\<open>generateId()\<close> reads the clock and the random generator: its result is \<open>newId\<close>.\<close>

definition addField :: "jsstring \<Rightarrow> jsstring \<Rightarrow> 'n FormSchema \<Rightarrow> 'n FormSchema" where
  "addField now newId schema =
     (let index = length (schema_fields schema) + 1;
          newField =
            \<lparr>field_id = newId,
             field_name = lit ''field_'' @ showNat index,
             label = lit ''Field '' @ showNat index,
             field_type = Text,
             required = Some False,
             placeholder = Some [],
             field_min = None, field_max = None, pattern = None, options = None\<rparr>
      in updateSchema now schema
           (emptySchemaPatch\<lparr>sp_fields := Some (schema_fields schema @ [newField])\<rparr>))"

definition removeField :: "jsstring \<Rightarrow> 'n FormSchema \<Rightarrow> jsstring \<Rightarrow> 'n FormSchema" where
  "removeField now schema fieldId =
     updateSchema now schema
       (emptySchemaPatch\<lparr>sp_fields :=
          Some (filter (\<lambda>f. field_id f \<noteq> fieldId) (schema_fields schema))\<rparr>)"

definition handleLayoutChange :: "jsstring \<Rightarrow> 'n FormSchema \<Rightarrow> FormLayout \<Rightarrow> 'n FormSchema" where
  "handleLayoutChange now schema v = updateSchema now schema (emptySchemaPatch\<lparr>sp_layout := Some v\<rparr>)"

text \<open>The two \<open>onChange\<close> handlers of the form name and of the description.\<close>

definition handleNameChange :: "jsstring \<Rightarrow> 'n FormSchema \<Rightarrow> jsstring \<Rightarrow> 'n FormSchema" where
  "handleNameChange now schema v = updateSchema now schema (emptySchemaPatch\<lparr>sp_name := Some v\<rparr>)"

definition handleDescriptionChange :: "jsstring \<Rightarrow> 'n FormSchema \<Rightarrow> jsstring \<Rightarrow> 'n FormSchema" where
  "handleDescriptionChange now schema v =
     updateSchema now schema (emptySchemaPatch\<lparr>sp_description := Some (Some v)\<rparr>)"

text \<open>
  \<open>handleTypeChange\<close> of a field's row builds the patch it hands to \<open>onChange\<close>, which is
  \<open>updateField\<close> at the row's field: \<open>type\<close>, and \<open>options: undefined\<close> unless the new
  type is \<open>select\<close>.
\<close>

definition handleTypeChange :: "FieldType \<Rightarrow> 'n FieldPatch" where
  "handleTypeChange newType =
     (let patch = emptyFieldPatch\<lparr>p_type := Some newType\<rparr>
      in if newType \<noteq> Select then patch\<lparr>p_options := Some None\<rparr> else patch)"

section \<open>A small host\<close>

text \<open>
  An instance of the host on which the model runs on concrete inputs.  It is not
  ECMAScript: its numbers are the integers and NaN, \<open>Number\<close> reads an optionally signed
  decimal integer between white space (the empty string is 0) and gives NaN for every
  other string, and a pattern is accepted when it consists of letters and digits only,
  in which case it matches the strings that contain it.  On those inputs, and on the
  pattern \<open>(\<close>, it agrees with ECMAScript.
\<close>

datatype mini_num = MNaN | MInt int

fun digitsValue :: "jsstring \<Rightarrow> nat \<Rightarrow> nat option" where
  "digitsValue [] acc = Some acc"
| "digitsValue (c # cs) acc =
     (if 0x30 \<le> c \<and> c \<le> 0x39 then digitsValue cs (10 * acc + (unat c - 48)) else None)"

definition miniNumber :: "jsstring \<Rightarrow> mini_num" where
  "miniNumber s =
     (case trim s of
        [] \<Rightarrow> MInt 0
      | c # cs \<Rightarrow>
          if (c = 0x2D \<or> c = 0x2B) \<and> cs \<noteq> [] then
            (case digitsValue cs 0 of
               None \<Rightarrow> MNaN
             | Some n \<Rightarrow> MInt (if c = 0x2D then - int n else int n))
          else (case digitsValue (c # cs) 0 of None \<Rightarrow> MNaN | Some n \<Rightarrow> MInt (int n)))"

fun miniLt :: "mini_num \<Rightarrow> mini_num \<Rightarrow> bool" where
  "miniLt (MInt a) (MInt b) = (a < b)"
| "miniLt _ _ = False"

fun miniToString :: "mini_num \<Rightarrow> jsstring" where
  "miniToString MNaN = lit ''NaN''"
| "miniToString (MInt i) = (if i < 0 then 0x2D # showNat (nat (- i)) else showNat (nat i))"

definition isAlphaNum :: "16 word \<Rightarrow> bool" where
  "isAlphaNum c \<longleftrightarrow>
     (0x30 \<le> c \<and> c \<le> 0x39) \<or> (0x41 \<le> c \<and> c \<le> 0x5A) \<or> (0x61 \<le> c \<and> c \<le> 0x7A)"

definition miniRegExp :: "jsstring \<Rightarrow> jsstring option" where
  "miniRegExp p = (if list_all isAlphaNum p then Some p else None)"

fun miniTest :: "jsstring \<Rightarrow> jsstring \<Rightarrow> bool" where
  "miniTest p [] = (p = [])"
| "miniTest p (c # cs) = (take (length p) (c # cs) = p \<or> miniTest p cs)"

definition miniHost :: "(mini_num, jsstring) host" where
  "miniHost =
     \<lparr>js_Number = miniNumber, js_isNaN = (\<lambda>x. x = MNaN), js_lt = miniLt,
      js_toString = miniToString, js_RegExp = miniRegExp, js_test = miniTest\<rparr>"

section \<open>Example inputs\<close>

definition ageField :: "mini_num FieldSchema" where
  "ageField =
     \<lparr>field_id = lit ''f1'', field_name = lit ''age'', label = lit ''Age'',
      field_type = Number, required = Some True, placeholder = None,
      field_min = Some (MInt 0), field_max = Some (MInt 120), pattern = None, options = None\<rparr>"

definition codeField :: "mini_num FieldSchema" where
  "codeField =
     \<lparr>field_id = lit ''f2'', field_name = lit ''code'', label = lit ''Code'',
      field_type = Text, required = Some False, placeholder = None,
      field_min = None, field_max = None, pattern = Some (lit ''ab''), options = None\<rparr>"

definition choiceField :: "mini_num FieldSchema" where
  "choiceField =
     \<lparr>field_id = lit ''f3'', field_name = lit ''choice'', label = lit ''Choice'',
      field_type = Select, required = Some False, placeholder = None,
      field_min = None, field_max = None, pattern = None,
      options = Some [lit ''A'', lit ''B'']\<rparr>"

definition noteField :: "mini_num FieldSchema" where
  "noteField =
     \<lparr>field_id = lit ''f4'', field_name = lit ''note'', label = lit ''Note'',
      field_type = Text, required = Some False, placeholder = None,
      field_min = None, field_max = None, pattern = None, options = None\<rparr>"

definition remarkField :: "mini_num FieldSchema" where
  "remarkField =
     \<lparr>field_id = lit ''f5'', field_name = lit ''note'', label = lit ''Remark'',
      field_type = Text, required = Some False, placeholder = None,
      field_min = None, field_max = None, pattern = None, options = None\<rparr>"

definition protoField :: "mini_num FieldSchema" where
  "protoField =
     \<lparr>field_id = lit ''f6'', field_name = lit ''__proto__'', label = lit ''Proto'',
      field_type = Text, required = Some False, placeholder = None,
      field_min = None, field_max = None, pattern = None, options = None\<rparr>"

definition schemaOf :: "mini_num FieldSchema list \<Rightarrow> mini_num FormSchema" where
  "schemaOf fs =
     \<lparr>schema_id = lit ''s1'', schema_name = lit ''Untitled Form'', description = Some [],
      layout = SingleColumn, schema_fields = fs,
      createdAt = lit ''2024-01-01T00:00:00.000Z'',
      updatedAt = lit ''2024-01-01T00:00:00.000Z''\<rparr>"

definition stateOf :: "(string \<times> string) list \<Rightarrow> form_state" where
  "stateOf kvs =
     \<lparr>st_values = foldl (\<lambda>m (k, v). Mapping.update (lit k) (lit v) m) Mapping.empty kvs,
      st_errors = Mapping.empty\<rparr>"

section \<open>Evaluation and frame lemmas\<close>

lemmas string_eval = lit_def trim_def isWhiteSpace_def

lemmas host_eval = miniHost_def miniNumber_def miniRegExp_def isAlphaNum_def js_gt_def

lemmas example_eval =
  ageField_def codeField_def choiceField_def noteField_def remarkField_def protoField_def
  schemaOf_def stateOf_def
  rawValueOf_def

lemmas validate_eval =
  validate_def validateField_def numberCheck_def minCheck_def maxCheck_def patternCheck_def
  msgRequired_def msgNotANumber_def msgMin_def msgMax_def msgPattern_def

lemma miniTest_empty: "miniTest [] s"
  by (cases s) simp_all

lemma miniHost_empty_pattern:
  "\<exists>r. js_RegExp miniHost [] = Some r \<and> (\<forall>s. js_test miniHost r s)"
proof (intro exI conjI allI)
  show "js_RegExp miniHost [] = Some []"
    by (simp add: miniHost_def miniRegExp_def)
  show "js_test miniHost [] s" for s
    by (simp add: miniHost_def miniTest_empty)
qed

lemma find_app:
  "find P (xs @ ys) = (case find P xs of None \<Rightarrow> find P ys | Some x \<Rightarrow> Some x)"
  by (induction xs) auto

text \<open>The body of the validation loop touches no key but the field's own id.\<close>

lemma validateField_other:
  "k \<noteq> field_id g \<Longrightarrow>
   Mapping.lookup (validateField rt vals acc g) k = Mapping.lookup acc k"
  by (simp add: validateField_def patternCheck_def Let_def split: option.splits)

text \<open>At its own id it assigns what it assigns on the empty object, or leaves the entry.\<close>

lemma validateField_own:
  "Mapping.lookup (validateField rt vals acc g) (field_id g) =
     (case Mapping.lookup (validateField rt vals Mapping.empty g) (field_id g) of
        Some e \<Rightarrow> Some e
      | None \<Rightarrow> Mapping.lookup acc (field_id g))"
  by (simp add: validateField_def patternCheck_def Let_def split: option.splits)

lemma validate_fold_lookup:
  assumes "\<forall>g \<in> set fs. field_id g = field_id field \<longrightarrow> g = field"
  shows "Mapping.lookup (foldl (validateField rt vals) acc fs) (field_id field) =
     (if field \<in> set fs then
        (case Mapping.lookup (validateField rt vals Mapping.empty field) (field_id field) of
           Some e \<Rightarrow> Some e
         | None \<Rightarrow> Mapping.lookup acc (field_id field))
      else Mapping.lookup acc (field_id field))"
  using assms
proof (induction fs arbitrary: acc)
  case Nil
  then show ?case by simp
next
  case (Cons g fs)
  have rest: "\<forall>h \<in> set fs. field_id h = field_id field \<longrightarrow> h = field"
    using Cons.prems by simp
  show ?case
  proof (cases "field_id g = field_id field")
    case True
    then have g: "g = field" using Cons.prems by simp
    show ?thesis
      using Cons.IH [OF rest, of "validateField rt vals acc field"]
        validateField_own [of rt vals acc field]
      by (simp add: g split: option.splits)
  next
    case False
    then have "g \<noteq> field" by auto
    then show ?thesis
      using Cons.IH [OF rest, of "validateField rt vals acc g"] False
        validateField_other [of "field_id field" g rt vals acc]
      by (auto split: option.splits)
  qed
qed

text \<open>
  In a schema where no other field carries the field's id, the entry of the error map at
  that id is the one the loop body assigns for this field.
\<close>

lemma validate_lookup:
  assumes "field \<in> set (schema_fields schema)"
    and "\<forall>g \<in> set (schema_fields schema). field_id g = field_id field \<longrightarrow> g = field"
  shows "Mapping.lookup (st_errors (snd (validate rt schema st))) (field_id field) =
     Mapping.lookup (validateField rt (st_values st) Mapping.empty field) (field_id field)"
  using validate_fold_lookup [OF assms(2), of rt "st_values st" Mapping.empty] assms(1)
  by (simp add: validate_def Let_def split: option.splits)

text \<open>
  The record maps a name other than \<open>__proto__\<close> to the value assigned for the last field
  of that name; it never gets an entry at \<open>__proto__\<close>.
\<close>

lemma coerce_fold_lookup:
  assumes "n \<noteq> lit ''__proto__''"
  shows "Mapping.lookup (foldl (coerceField rt vals) data fs) n =
     (case find (\<lambda>f. field_name f = n) (rev fs) of
        None \<Rightarrow> Mapping.lookup data n
      | Some f \<Rightarrow>
          Some (if field_type f = Number \<and> trim (rawValueOf vals f) \<noteq> []
                then JNumber (js_Number rt (rawValueOf vals f))
                else JString (rawValueOf vals f)))"
proof (induction fs rule: rev_induct)
  case Nil
  then show ?case by simp
next
  case (snoc x xs)
  show ?case
  proof (cases "field_name x = n")
    case True
    then show ?thesis
      using assms by (simp add: coerceField_def assignProperty_def Let_def)
  next
    case False
    then show ?thesis
      using snoc.IH by (simp add: coerceField_def assignProperty_def Let_def)
  qed
qed

lemma coerce_fold_proto:
  "Mapping.lookup (foldl (coerceField rt vals) data fs) (lit ''__proto__'') =
     Mapping.lookup data (lit ''__proto__'')"
proof (induction fs rule: rev_induct)
  case Nil
  then show ?case by simp
next
  case (snoc x xs)
  then show ?case
    by (simp add: coerceField_def assignProperty_def Let_def)
qed

lemma find_last_named:
  assumes "fs = pre @ field # post" and "field_name field \<notin> field_name ` set post"
  shows "find (\<lambda>f. field_name f = field_name field) (rev fs) = Some field"
proof -
  have "\<forall>f \<in> set post. field_name f \<noteq> field_name field"
    using assms(2) by (metis imageI)
  then have "find (\<lambda>f. field_name f = field_name field) (rev post) = None"
    by (simp add: find_None_iff)
  then show ?thesis
    by (simp add: assms(1) find_app)
qed

lemma coerceFields_last_named:
  assumes "fs = pre @ field # post" and "field_name field \<notin> field_name ` set post"
    and "field_name field \<noteq> lit ''__proto__''"
  shows "Mapping.lookup (coerceFields rt vals fs) (field_name field) =
     Some (if field_type field = Number \<and> trim (rawValueOf vals field) \<noteq> []
           then JNumber (js_Number rt (rawValueOf vals field))
           else JString (rawValueOf vals field))"
  by (simp add: coerceFields_def coerce_fold_lookup [OF assms(3)]
      find_last_named [OF assms(1,2)])


lemma typeChange_field:
  "field_id (applyFieldPatch g (handleTypeChange newType)) = field_id g"
  "field_type (applyFieldPatch g (handleTypeChange newType)) = newType"
  "options (applyFieldPatch g (handleTypeChange newType)) =
     (if newType \<noteq> Select then None else options g)"
  by (simp_all add: applyFieldPatch_def handleTypeChange_def emptyFieldPatch_def spread_def
      Let_def)

lemma updateField_fields:
  "schema_fields (updateField now schema fieldId patch) =
     map (\<lambda>f. if field_id f = fieldId then applyFieldPatch f patch else f)
       (schema_fields schema)"
  by (simp add: updateField_def updateSchema_def emptySchemaPatch_def spread_def Let_def)

section \<open>Validation\<close>

text \<open>
  C1.  A number field whose trimmed input is not empty gets exactly one of four outcomes,
  tried in this order: "Must be a valid number" when \<open>Number\<close> of the trimmed input is
  NaN; "Must be \<ge> min" when \<open>min\<close> is set and the number is below it; "Must be \<le> max"
  when \<open>max\<close> is set and the number is above it; no error otherwise.  The field's id is
  the key of the error map, so the field is one whose id no other field of the schema
  carries (ids are unique within a schema).
\<close>

theorem validate_number_field:
  assumes "field \<in> set (schema_fields schema)"
    and "\<forall>g \<in> set (schema_fields schema). field_id g = field_id field \<longrightarrow> g = field"
    and "field_type field = Number"
    and "trim (rawValueOf (st_values st) field) \<noteq> []"
  shows "Mapping.lookup (st_errors (snd (validate rt schema st))) (field_id field) =
     (let num = js_Number rt (trim (rawValueOf (st_values st) field))
      in if js_isNaN rt num then Some (lit ''Must be a valid number'')
         else if (\<exists>m. field_min field = Some m \<and> js_lt rt num m) then
           Some (lit ''Must be '' @ [0x2265] @ lit '' '' @ js_toString rt (the (field_min field)))
         else if (\<exists>m. field_max field = Some m \<and> js_lt rt m num) then
           Some (lit ''Must be '' @ [0x2264] @ lit '' '' @ js_toString rt (the (field_max field)))
         else None)"
  using assms(3,4)
  by (simp add: validate_lookup [OF assms(1,2)] validateField_def numberCheck_def minCheck_def
      maxCheck_def patternCheck_def js_gt_def msgNotANumber_def msgMin_def msgMax_def Let_def
      split: option.splits)

theorem validate_number_field_witness:
  "Mapping.lookup
     (st_errors (snd (validate miniHost (schemaOf [ageField, codeField])
                        (stateOf [(''f1'', ''abc'')]))))
     (lit ''f1'') = Some (lit ''Must be a valid number'') \<and>
   Mapping.lookup
     (st_errors (snd (validate miniHost
                        (schemaOf [ageField\<lparr>field_min := Some (MInt 10), field_max := None\<rparr>])
                        (stateOf [(''f1'', ''5'')]))))
     (lit ''f1'') = Some (lit ''Must be '' @ [0x2265] @ lit '' 10'') \<and>
   Mapping.lookup
     (st_errors (snd (validate miniHost
                        (schemaOf [ageField\<lparr>field_min := None, field_max := Some (MInt 1)\<rparr>])
                        (stateOf [(''f1'', ''5'')]))))
     (lit ''f1'') = Some (lit ''Must be '' @ [0x2264] @ lit '' 1'') \<and>
   Mapping.lookup
     (st_errors (snd (validate miniHost
                        (schemaOf [ageField\<lparr>field_min := Some (MInt 1), field_max := Some (MInt 10)\<rparr>])
                        (stateOf [(''f1'', ''5'')]))))
     (lit ''f1'') = None"
  using validate_number_field [where field = ageField
      and schema = "schemaOf [ageField, codeField]"
      and st = "stateOf [(''f1'', ''abc'')]" and rt = miniHost]
    validate_number_field [where
      field = "ageField\<lparr>field_min := Some (MInt 10), field_max := None\<rparr>"
      and schema = "schemaOf [ageField\<lparr>field_min := Some (MInt 10), field_max := None\<rparr>]"
      and st = "stateOf [(''f1'', ''5'')]" and rt = miniHost]
    validate_number_field [where
      field = "ageField\<lparr>field_min := None, field_max := Some (MInt 1)\<rparr>"
      and schema = "schemaOf [ageField\<lparr>field_min := None, field_max := Some (MInt 1)\<rparr>]"
      and st = "stateOf [(''f1'', ''5'')]" and rt = miniHost]
    validate_number_field [where
      field = "ageField\<lparr>field_min := Some (MInt 1), field_max := Some (MInt 10)\<rparr>"
      and schema =
        "schemaOf [ageField\<lparr>field_min := Some (MInt 1), field_max := Some (MInt 10)\<rparr>]"
      and st = "stateOf [(''f1'', ''5'')]" and rt = miniHost]
  by (simp add: example_eval host_eval string_eval)

text \<open>
  C2.  A field whose trimmed input is empty (an absent input counts as the empty string)
  gets "This field is required" when \<open>required\<close> is true and no error otherwise, whatever
  its type, bounds and pattern are: no other check is made.
\<close>

theorem validate_empty_input:
  assumes "field \<in> set (schema_fields schema)"
    and "\<forall>g \<in> set (schema_fields schema). field_id g = field_id field \<longrightarrow> g = field"
    and "trim (rawValueOf (st_values st) field) = []"
  shows "Mapping.lookup (st_errors (snd (validate rt schema st))) (field_id field) =
     (if required field = Some True then Some (lit ''This field is required'') else None)"
  using assms(3)
  by (simp add: validate_lookup [OF assms(1,2)] validateField_def msgRequired_def Let_def)

theorem validate_empty_input_witness:
  "Mapping.lookup
     (st_errors (snd (validate miniHost (schemaOf [ageField, codeField])
                        (stateOf [(''f1'', ''  '')]))))
     (lit ''f1'') = Some (lit ''This field is required'') \<and>
   Mapping.lookup
     (st_errors (snd (validate miniHost (schemaOf [ageField, codeField])
                        (stateOf [(''f1'', ''  '')]))))
     (lit ''f2'') = None"
  using validate_empty_input [where field = ageField
      and schema = "schemaOf [ageField, codeField]"
      and st = "stateOf [(''f1'', ''  '')]" and rt = miniHost]
    validate_empty_input [where field = codeField
      and schema = "schemaOf [ageField, codeField]"
      and st = "stateOf [(''f1'', ''  '')]" and rt = miniHost]
  by (simp add: example_eval host_eval string_eval)

text \<open>
  C3.  A text field with a pattern and a trimmed input that is not empty: when
  \<open>new RegExp\<close> throws, no error is reported and nothing escapes; when it compiles, the
  error is "Value does not match required format" if \<open>test\<close> fails on the trimmed input
  and there is no error if it succeeds.  The code skips the empty pattern, which is
  falsy; the host compiles it to a regular expression that matches every string, so the
  outcome is the same.
\<close>

theorem validate_text_pattern:
  assumes "field \<in> set (schema_fields schema)"
    and "\<forall>g \<in> set (schema_fields schema). field_id g = field_id field \<longrightarrow> g = field"
    and "field_type field = Text"
    and "pattern field = Some p"
    and "trim (rawValueOf (st_values st) field) \<noteq> []"
    and "p = [] \<longrightarrow> (\<exists>r. js_RegExp rt [] = Some r \<and> (\<forall>s. js_test rt r s))"
  shows "Mapping.lookup (st_errors (snd (validate rt schema st))) (field_id field) =
     (case js_RegExp rt p of
        None \<Rightarrow> None
      | Some regex \<Rightarrow>
          if js_test rt regex (trim (rawValueOf (st_values st) field)) then None
          else Some (lit ''Value does not match required format''))"
  using assms(3-6)
  by (auto simp add: validate_lookup [OF assms(1,2)] validateField_def patternCheck_def
      msgPattern_def Let_def split: option.splits)

theorem validate_text_pattern_witness:
  "Mapping.lookup
     (st_errors (snd (validate miniHost (schemaOf [codeField]) (stateOf [(''f2'', '' xyz '')]))))
     (lit ''f2'') = Some (lit ''Value does not match required format'') \<and>
   Mapping.lookup
     (st_errors (snd (validate miniHost (schemaOf [codeField\<lparr>pattern := Some (lit ''('')\<rparr>])
                        (stateOf [(''f2'', '' xyz '')]))))
     (lit ''f2'') = None \<and>
   Mapping.lookup
     (st_errors (snd (validate miniHost (schemaOf [codeField\<lparr>pattern := Some []\<rparr>])
                        (stateOf [(''f2'', '' xyz '')]))))
     (lit ''f2'') = None"
  using validate_text_pattern [where field = codeField and p = "lit ''ab''"
      and schema = "schemaOf [codeField]"
      and st = "stateOf [(''f2'', '' xyz '')]" and rt = miniHost]
    validate_text_pattern [where field = "codeField\<lparr>pattern := Some (lit ''('')\<rparr>"
      and p = "lit ''(''"
      and schema = "schemaOf [codeField\<lparr>pattern := Some (lit ''('')\<rparr>]"
      and st = "stateOf [(''f2'', '' xyz '')]" and rt = miniHost]
    validate_text_pattern [where field = "codeField\<lparr>pattern := Some []\<rparr>"
      and p = "[]"
      and schema = "schemaOf [codeField\<lparr>pattern := Some []\<rparr>]"
      and st = "stateOf [(''f2'', '' xyz '')]" and rt = miniHost]
    miniHost_empty_pattern
  by (simp add: example_eval host_eval string_eval)

text \<open>
  C6.  A select or date field whose trimmed input is not empty never gets an error: the
  statement does not look at \<open>options\<close>, so a value outside the list is accepted.
\<close>

theorem validate_select_date:
  assumes "field \<in> set (schema_fields schema)"
    and "\<forall>g \<in> set (schema_fields schema). field_id g = field_id field \<longrightarrow> g = field"
    and "field_type field = Select \<or> field_type field = Date"
    and "trim (rawValueOf (st_values st) field) \<noteq> []"
  shows "Mapping.lookup (st_errors (snd (validate rt schema st))) (field_id field) = None"
  using assms(3,4)
  by (auto simp add: validate_lookup [OF assms(1,2)] validateField_def patternCheck_def
      Let_def split: option.splits)

theorem validate_select_date_witness:
  "options choiceField = Some [lit ''A'', lit ''B''] \<and>
   Mapping.lookup (st_values (stateOf [(''f3'', ''Z'')])) (lit ''f3'') = Some (lit ''Z'') \<and>
   Mapping.lookup
     (st_errors (snd (validate miniHost (schemaOf [ageField, choiceField])
                        (stateOf [(''f3'', ''Z'')]))))
     (lit ''f3'') = None"
  using validate_select_date [where field = choiceField
      and schema = "schemaOf [ageField, choiceField]"
      and st = "stateOf [(''f3'', ''Z'')]" and rt = miniHost]
  by (simp add: example_eval host_eval string_eval)


section \<open>Coercion\<close>







text \<open>
  C10, as the code has it.  The record built by the loop has an entry for the name of
  every field whose name is not \<open>__proto__\<close>.  A field whose input is absent or the empty
  string, whose name is not \<open>__proto__\<close> and is carried by no later field, has the empty
  string as its value, a number field too; when a later field carries the name, the
  entry holds that field's value (C7).
\<close>

theorem every_name_in_record:
  "(\<forall>f \<in> set fs.
      field_name f \<noteq> lit ''__proto__'' \<longrightarrow>
      Mapping.lookup (coerceFields rt vals fs) (field_name f) \<noteq> None) \<and>
   (\<forall>pre field post.
      fs = pre @ field # post \<and>
      field_name field \<noteq> lit ''__proto__'' \<and>
      field_name field \<notin> field_name ` set post \<and>
      (Mapping.lookup vals (field_id field) = None \<or>
       Mapping.lookup vals (field_id field) = Some [])
      \<longrightarrow> Mapping.lookup (coerceFields rt vals fs) (field_name field) = Some (JString []))"
proof (intro conjI ballI allI impI)
  fix f assume "f \<in> set fs" and named: "field_name f \<noteq> lit ''__proto__''"
  then have "find (\<lambda>g. field_name g = field_name f) (rev fs) \<noteq> None"
    by (auto simp add: find_None_iff)
  then show "Mapping.lookup (coerceFields rt vals fs) (field_name f) \<noteq> None"
    by (auto simp add: coerceFields_def coerce_fold_lookup [OF named])
next
  fix pre field post
  assume h: "fs = pre @ field # post \<and>
      field_name field \<noteq> lit ''__proto__'' \<and>
      field_name field \<notin> field_name ` set post \<and>
      (Mapping.lookup vals (field_id field) = None \<or>
       Mapping.lookup vals (field_id field) = Some [])"
  then have raw: "rawValueOf vals field = []"
    by (auto simp add: rawValueOf_def)
  from h have "fs = pre @ field # post" and "field_name field \<notin> field_name ` set post"
    and "field_name field \<noteq> lit ''__proto__''"
    by simp_all
  then show "Mapping.lookup (coerceFields rt vals fs) (field_name field) = Some (JString [])"
    using coerceFields_last_named [of fs pre field post rt vals]
    by (simp add: raw trim_def)
qed

theorem every_name_in_record_witness:
  "Mapping.lookup
     (coerceFields miniHost (st_values (stateOf [(''f4'', ''hi'')]))
        [noteField, ageField\<lparr>required := None\<rparr>])
     (lit ''age'') = Some (JString [])"
proof -
  let ?age = "ageField\<lparr>required := None\<rparr>"
  let ?fs = "[noteField, ?age]"
  let ?vals = "st_values (stateOf [(''f4'', ''hi'')])"
  have "Mapping.lookup (coerceFields miniHost ?vals ?fs) (field_name ?age) = Some (JString [])"
  proof (rule every_name_in_record [THEN conjunct2, rule_format])
    show "?fs = [noteField] @ ?age # [] \<and>
      field_name ?age \<noteq> lit ''__proto__'' \<and>
      field_name ?age \<notin> field_name ` set [] \<and>
      (Mapping.lookup ?vals (field_id ?age) = None \<or>
       Mapping.lookup ?vals (field_id ?age) = Some [])"
      by (simp add: example_eval string_eval)
  qed
  then show ?thesis
    by (simp add: ageField_def)
qed

text \<open>
  Two text fields named \<open>note\<close>, the first without input and the second with \<open>hi\<close>: the
  record maps \<open>note\<close> to \<open>hi\<close>, not to the empty string.  A single text field named
  \<open>__proto__\<close> without input: validation succeeds and the record has no entry under the
  name.
\<close>

theorem entry_shadowed_or_missing_counterexample:
  "fst (handleSubmit miniHost (schemaOf [noteField, remarkField]) (stateOf [(''f5'', ''hi'')])) =
     Some (coerceFields miniHost (st_values (stateOf [(''f5'', ''hi'')]))
             [noteField, remarkField]) \<and>
   field_type noteField = Text \<and> required noteField = Some False \<and>
   Mapping.lookup (st_values (stateOf [(''f5'', ''hi'')])) (field_id noteField) = None \<and>
   Mapping.lookup
     (coerceFields miniHost (st_values (stateOf [(''f5'', ''hi'')])) [noteField, remarkField])
     (field_name noteField) = Some (JString (lit ''hi'')) \<and>
   fst (handleSubmit miniHost (schemaOf [protoField]) (stateOf [])) =
     Some (coerceFields miniHost (st_values (stateOf [])) [protoField]) \<and>
   Mapping.lookup (coerceFields miniHost (st_values (stateOf [])) [protoField])
     (field_name protoField) = None"
  by (simp add: handleSubmit_def coerceFields_def coerceField_def assignProperty_def
      example_eval host_eval string_eval validate_eval Let_def)

section \<open>Schema editing\<close>

text \<open>
  C4, as the code has it.  \<open>updateField\<close> merges the patch into the field and nothing
  more; the clearing is in the patch that \<open>handleTypeChange\<close> builds.  With that patch for
  a type other than \<open>select\<close>, every field of the given id has the new type and
  \<open>options\<close> undefined, and it still has \<open>options\<close> undefined after a second change back
  to \<open>select\<close>.
\<close>

theorem type_change_clears_options:
  assumes "newType \<noteq> Select"
  shows "(\<forall>f \<in> set (schema_fields (updateField t1 schema fieldId (handleTypeChange newType))).
            field_id f = fieldId \<longrightarrow> options f = None \<and> field_type f = newType) \<and>
         (\<forall>f \<in> set (schema_fields
                      (updateField t2 (updateField t1 schema fieldId (handleTypeChange newType))
                         fieldId (handleTypeChange Select))).
            field_id f = fieldId \<longrightarrow> options f = None \<and> field_type f = Select)"
proof -
  let ?s1 = "updateField t1 schema fieldId (handleTypeChange newType)"
  have first: "options f = None \<and> field_type f = newType"
    if "f \<in> set (schema_fields ?s1)" and "field_id f = fieldId" for f
  proof -
    from that(1) obtain g where g: "g \<in> set (schema_fields schema)"
      and f: "f = (if field_id g = fieldId
                   then applyFieldPatch g (handleTypeChange newType) else g)"
      by (auto simp add: updateField_fields)
    have "field_id g = fieldId"
      using f that(2) by (simp add: typeChange_field split: if_splits)
    then show ?thesis
      using f assms by (simp add: typeChange_field)
  qed
  have second: "options f = None \<and> field_type f = Select"
    if "f \<in> set (schema_fields (updateField t2 ?s1 fieldId (handleTypeChange Select)))"
      and "field_id f = fieldId" for f
  proof -
    from that(1) obtain g where g: "g \<in> set (schema_fields ?s1)"
      and f: "f = (if field_id g = fieldId
                   then applyFieldPatch g (handleTypeChange Select) else g)"
      by (auto simp add: updateField_fields [of t2])
    have gid: "field_id g = fieldId"
      using f that(2) by (simp add: typeChange_field split: if_splits)
    then have "options g = None"
      using first [OF g] by simp
    then show ?thesis
      using f gid by (simp add: typeChange_field)
  qed
  show ?thesis
    using first second by blast
qed

theorem type_change_clears_options_witness:
  "map options
     (schema_fields (updateField (lit ''t1'') (schemaOf [choiceField]) (lit ''f3'')
                       (handleTypeChange Number))) = [None] \<and>
   map options
     (schema_fields
        (updateField (lit ''t2'')
           (updateField (lit ''t1'') (schemaOf [choiceField]) (lit ''f3'')
              (handleTypeChange Number))
           (lit ''f3'') (handleTypeChange Select))) = [None]"
proof -
  have ne: "Number \<noteq> Select" by simp
  have ids: "map field_id
       (schema_fields (updateField t (schemaOf [choiceField]) (lit ''f3'') (handleTypeChange ty)))
       = [lit ''f3'']" for t ty
    by (simp add: updateField_fields typeChange_field schemaOf_def choiceField_def)
  have ids2: "map field_id
       (schema_fields
          (updateField t'
             (updateField t (schemaOf [choiceField]) (lit ''f3'') (handleTypeChange ty))
             (lit ''f3'') (handleTypeChange ty')))
       = [lit ''f3'']" for t t' ty ty'
    by (simp add: updateField_fields typeChange_field schemaOf_def choiceField_def)
  show ?thesis
    using type_change_clears_options [OF ne, of "lit ''t1''" "schemaOf [choiceField]"
        "lit ''f3''" "lit ''t2''"]
      ids [of "lit ''t1''" Number] ids2 [of "lit ''t2''" "lit ''t1''" Number Select]
    by (auto simp add: map_eq_Cons_conv)
qed

theorem type_only_patch_counterexample:
  "map field_type
     (schema_fields (updateField (lit ''t1'') (schemaOf [choiceField]) (lit ''f3'')
                       (emptyFieldPatch\<lparr>p_type := Some Number\<rparr>))) = [Number] \<and>
   map options
     (schema_fields (updateField (lit ''t1'') (schemaOf [choiceField]) (lit ''f3'')
                       (emptyFieldPatch\<lparr>p_type := Some Number\<rparr>))) =
     [Some [lit ''A'', lit ''B'']] \<and>
   map options
     (schema_fields
        (updateField (lit ''t2'')
           (updateField (lit ''t1'') (schemaOf [choiceField]) (lit ''f3'')
              (emptyFieldPatch\<lparr>p_type := Some Number\<rparr>))
           (lit ''f3'') (emptyFieldPatch\<lparr>p_type := Some Select\<rparr>))) =
     [Some [lit ''A'', lit ''B'']]"
  by (simp add: updateField_fields applyFieldPatch_def emptyFieldPatch_def spread_def
      schemaOf_def choiceField_def)

text \<open>
  C8.  Adding, updating and removing a field, changing the layout, the name and the
  description each give a schema whose \<open>updatedAt\<close> is the clock's reading and whose \<open>id\<close>
  and \<open>createdAt\<close> are those of the schema they were given.
\<close>

theorem mutations_refresh_updatedAt:
  "updatedAt (addField now newId schema) = now \<and>
   schema_id (addField now newId schema) = schema_id schema \<and>
   createdAt (addField now newId schema) = createdAt schema \<and>
   updatedAt (updateField now schema fieldId patch) = now \<and>
   schema_id (updateField now schema fieldId patch) = schema_id schema \<and>
   createdAt (updateField now schema fieldId patch) = createdAt schema \<and>
   updatedAt (removeField now schema fieldId) = now \<and>
   schema_id (removeField now schema fieldId) = schema_id schema \<and>
   createdAt (removeField now schema fieldId) = createdAt schema \<and>
   updatedAt (handleLayoutChange now schema l) = now \<and>
   schema_id (handleLayoutChange now schema l) = schema_id schema \<and>
   createdAt (handleLayoutChange now schema l) = createdAt schema \<and>
   updatedAt (handleNameChange now schema v) = now \<and>
   schema_id (handleNameChange now schema v) = schema_id schema \<and>
   createdAt (handleNameChange now schema v) = createdAt schema \<and>
   updatedAt (handleDescriptionChange now schema v) = now \<and>
   schema_id (handleDescriptionChange now schema v) = schema_id schema \<and>
   createdAt (handleDescriptionChange now schema v) = createdAt schema"
  by (simp add: addField_def updateField_def removeField_def handleLayoutChange_def
      handleNameChange_def handleDescriptionChange_def updateSchema_def emptySchemaPatch_def
      spread_def Let_def del: showNat.simps)

theorem mutations_refresh_updatedAt_witness:
  "updatedAt (addField (lit ''2024-02-02T10:00:00.000Z'') (lit ''k9'') (schemaOf [ageField])) =
     lit ''2024-02-02T10:00:00.000Z'' \<and>
   schema_id (addField (lit ''2024-02-02T10:00:00.000Z'') (lit ''k9'') (schemaOf [ageField])) =
     lit ''s1'' \<and>
   createdAt (removeField (lit ''2024-02-02T10:00:00.000Z'') (schemaOf [ageField]) (lit ''f1'')) =
     lit ''2024-01-01T00:00:00.000Z'' \<and>
   updatedAt (handleLayoutChange (lit ''2024-02-02T10:00:00.000Z'') (schemaOf [ageField])
                TwoColumn) = lit ''2024-02-02T10:00:00.000Z''"
  using mutations_refresh_updatedAt [of "lit ''2024-02-02T10:00:00.000Z''" "lit ''k9''"
      "schemaOf [ageField]" "lit ''f1''" emptyFieldPatch TwoColumn "[]"]
  by (simp add: schemaOf_def)

text \<open>
  C9.  When no field of the schema has the given id, \<open>updateField\<close> returns the list of
  fields as it was, whatever the patch, and still sets \<open>updatedAt\<close> to the clock's reading;
  the function is total, so there is no error.
\<close>

theorem updateField_unknown_id:
  assumes "fieldId \<notin> field_id ` set (schema_fields schema)"
  shows "schema_fields (updateField now schema fieldId patch) = schema_fields schema \<and>
         updatedAt (updateField now schema fieldId patch) = now"
proof -
  have "map (\<lambda>f. if field_id f = fieldId then applyFieldPatch f patch else f)
          (schema_fields schema) = schema_fields schema"
    using assms by (intro map_idI) auto
  then show ?thesis
    by (simp add: updateField_def updateSchema_def emptySchemaPatch_def spread_def Let_def)
qed

theorem updateField_unknown_id_witness:
  "schema_fields
     (updateField (lit ''2024-02-02T10:00:00.000Z'') (schemaOf [ageField, choiceField])
        (lit ''zz'') (emptyFieldPatch\<lparr>p_label := Some (lit ''Renamed'')\<rparr>)) =
     [ageField, choiceField] \<and>
   updatedAt
     (updateField (lit ''2024-02-02T10:00:00.000Z'') (schemaOf [ageField, choiceField])
        (lit ''zz'') (emptyFieldPatch\<lparr>p_label := Some (lit ''Renamed'')\<rparr>)) =
     lit ''2024-02-02T10:00:00.000Z''"
  using updateField_unknown_id [where fieldId = "lit ''zz''"
      and schema = "schemaOf [ageField, choiceField]"
      and now = "lit ''2024-02-02T10:00:00.000Z''"
      and patch = "emptyFieldPatch\<lparr>p_label := Some (lit ''Renamed'')\<rparr>"]
  by (simp add: schemaOf_def ageField_def choiceField_def lit_def)


end
